theory Spec2Isabelle
  imports Complex_Main
begin

section \<open>AParkourGameCharacter: data model\<close>

text \<open>
  The class under study is \<^verbatim>\<open>AParkourGameCharacter\<close>
  (\<^verbatim>\<open>Source/ParkourGame/ParkourGameCharacter.cpp\<close>), a character class that runs inside a
  host game engine. The embedding separates three things:

  \<^item> what the class \<^emph>\<open>reads\<close> from the host during a call (actor location, forward vector,
    socket locations, the controller, the world's answer to a sphere trace, the engine's
    rotation-matrix mathematics): the record \<open>engine\<close>, an input of every operation;
  \<^item> what the class \<^emph>\<open>writes\<close> directly (its own members and the public fields of its
    components): the record \<open>character\<close>;
  \<^item> what the class \<^emph>\<open>asks the host to do\<close> (method calls on engine objects): the field
    \<open>calls\<close> of \<open>character\<close>, the list of those calls with their arguments, in the order in
    which the code issues them.

  A value of the C++ type \<^verbatim>\<open>float\<close> is modelled by the real number it denotes, and every
  arithmetic operation of the code rounds its exact result (\<open>fadd\<close>, \<open>fsub\<close>, \<open>fmul\<close> below).
  The rounding function is an input, part of \<open>engine\<close>. All that is known about it is what
  holds of every rounding to a binary floating-point format that contains the binary32 values:
  it is monotone, it leaves an already rounded value alone, and it is exact on the binary32
  values (the set \<open>binary32\<close>). Comparisons are exact. Infinities and NaN are not values of the
  model, and the two zeros are one value.
\<close>

type_synonym float = real

definition binary32 :: "real set" where
  "binary32 =
     {x. \<exists>(m::int) (k::nat). \<bar>m\<bar> < 2 ^ 24 \<and>
           ((k \<le> 104 \<and> x = of_int m * 2 ^ k) \<or> (k \<le> 149 \<and> x = of_int m / 2 ^ k))}"

typedef rounding =
  "{r :: real \<Rightarrow> real. mono r \<and> (\<forall>x. r (r x) = r x) \<and> (\<forall>x \<in> binary32. r x = x)}"
  morphisms round_with Abs_rounding
  by (rule exI [of _ id]) (simp add: mono_def)

definition fadd :: "rounding \<Rightarrow> float \<Rightarrow> float \<Rightarrow> float" where
  "fadd r a b = round_with r (a + b)"

definition fsub :: "rounding \<Rightarrow> float \<Rightarrow> float \<Rightarrow> float" where
  "fsub r a b = round_with r (a - b)"

definition fmul :: "rounding \<Rightarrow> float \<Rightarrow> float \<Rightarrow> float" where
  "fmul r a b = round_with r (a * b)"

datatype FVector = FVector (X: float) (Y: float) (Z: float)

datatype FRotator = FRotator (Pitch: float) (Yaw: float) (Roll: float)

text \<open>
  \<^verbatim>\<open>FVector::operator+\<close>, \<^verbatim>\<open>operator-\<close> and \<^verbatim>\<open>operator*(float)\<close> work componentwise, each
  component with one float operation.
\<close>

definition FVector_plus :: "rounding \<Rightarrow> FVector \<Rightarrow> FVector \<Rightarrow> FVector" where
  "FVector_plus r a b = FVector (fadd r (X a) (X b)) (fadd r (Y a) (Y b)) (fadd r (Z a) (Z b))"

definition FVector_minus :: "rounding \<Rightarrow> FVector \<Rightarrow> FVector \<Rightarrow> FVector" where
  "FVector_minus r a b = FVector (fsub r (X a) (X b)) (fsub r (Y a) (Y b)) (fsub r (Z a) (Z b))"

definition FVector_scale :: "rounding \<Rightarrow> FVector \<Rightarrow> float \<Rightarrow> FVector" where
  "FVector_scale r a k = FVector (fmul r (X a) k) (fmul r (Y a) k) (fmul r (Z a) k)"

definition ZeroVector :: FVector where
  "ZeroVector = FVector 0 0 0"

text \<open>
  \<^verbatim>\<open>FHitResult\<close>, restricted to the fields the class reads, and the value that
  \<^verbatim>\<open>FHitResult hit( ForceInit )\<close> constructs (everything zero).
\<close>

record FHitResult =
  bBlockingHit :: bool
  Location :: FVector
  Normal :: FVector

definition FHitResult_ForceInit :: FHitResult where
  "FHitResult_ForceInit =
     \<lparr>bBlockingHit = False, Location = ZeroVector, Normal = ZeroVector\<rparr>"

text \<open>Object references are identities; \<open>None\<close> is \<^verbatim>\<open>nullptr\<close>.\<close>

type_synonym AActor_ptr = "nat option"
type_synonym UAnimMontage_ptr = "nat option"

datatype ECollisionChannel = ECC_Visibility | ECC_Camera

datatype ETraceTypeQuery = ConvertToTraceType ECollisionChannel

datatype EDrawDebugTrace = DrawDebug_None | ForOneFrame | ForDuration | Persistent

datatype FLinearColor = Red | Green | Blue

datatype EMovementMode =
  MOVE_None | MOVE_Walking | MOVE_NavWalking | MOVE_Falling | MOVE_Swimming | MOVE_Flying
  | MOVE_Custom

datatype EAxis = EAxis_None | EAxis_X | EAxis_Y | EAxis_Z

datatype FRotationMatrix = FRotationMatrix FRotator

datatype EInputEvent = IE_Pressed | IE_Released

text \<open>The arguments of one \<^verbatim>\<open>UKismetSystemLibrary::SphereTraceSingle\<close> call.\<close>

record trace_query =
  Start :: FVector
  End :: FVector
  Radius :: float
  TraceChannel :: ETraceTypeQuery
  bTraceComplex :: bool
  ActorsToIgnore :: "AActor_ptr list"
  DrawDebugType :: EDrawDebugTrace
  bIgnoreSelf :: bool
  TraceColor :: FLinearColor

text \<open>The member functions that \<^verbatim>\<open>SetupPlayerInputComponent\<close> binds.\<close>

datatype handler =
  ACharacter_Jump | ACharacter_StopJumping
  | APawn_AddControllerYawInput | APawn_AddControllerPitchInput
  | H_MoveForward | H_MoveRight | H_TurnAtRate | H_LookUpAtRate
  | H_TouchStarted | H_TouchStopped | H_OnResetVR | H_StartSprint | H_StopSprint

datatype binding =
  BindAction string EInputEvent handler
  | BindAxis string handler
  | BindTouch EInputEvent handler

type_synonym UInputComponent = "binding list"

text \<open>The calls the class makes on engine objects.\<close>

datatype engine_call =
  Call_InitCapsuleSize float float
  | Call_CreateDefaultSubobject string
  | Call_SetupAttachment string string "string option"
  | Call_Super_Tick float
  | Call_SphereTraceSingle trace_query
  | Call_SetMovementMode EMovementMode
  | Call_StopMovementImmediately
  | Call_PlayAnimMontage UAnimMontage_ptr float
  | Call_Montage_Pause
  | Call_ResetOrientationAndPosition
  | Call_Jump
  | Call_StopJumping
  | Call_AddControllerYawInput float
  | Call_AddControllerPitchInput float
  | Call_AddMovementInput FVector float

record AController =
  GetControlRotation :: FRotator

text \<open>
  What the host answers during one call of a member function. \<open>GetWorld\<close> is the world as a
  trace sees it: for the arguments of a trace, the hit that the sweep finds, or \<open>None\<close> when
  it finds none. \<open>GetUnitAxis\<close> is the engine's \<^verbatim>\<open>FRotationMatrix( R ).GetUnitAxis( A )\<close>.
  \<open>FloatRounding\<close> is the rounding of the machine's float arithmetic.
\<close>

record engine =
  GetActorLocation :: FVector
  GetActorForwardVector :: FVector
  GetSocketLocation :: "string \<Rightarrow> FVector"
  GetOwner :: AActor_ptr
  Controller :: "AController option"
  GetWorld :: "trace_query \<Rightarrow> FHitResult option"
  GetUnitAxis :: "FRotationMatrix \<Rightarrow> EAxis \<Rightarrow> FVector"
  GetDeltaSeconds :: float
  FloatRounding :: rounding

record UCharacterMovementComponent =
  bOrientRotationToMovement :: bool
  RotationRate :: FRotator
  JumpZVelocity :: float
  AirControl :: float
  MaxWalkSpeed :: float

record USpringArmComponent =
  TargetArmLength :: float
  SpringArm_bUsePawnControlRotation :: bool

record UCameraComponent =
  Camera_bUsePawnControlRotation :: bool

record character =
  m_wallNormal :: FVector
  m_wallLocation :: FVector
  m_isClimbing :: bool
  Climb :: UAnimMontage_ptr
  BaseTurnRate :: float
  BaseLookUpRate :: float
  bUseControllerRotationPitch :: bool
  bUseControllerRotationYaw :: bool
  bUseControllerRotationRoll :: bool
  CharacterMovement :: UCharacterMovementComponent
  CameraBoom :: USpringArmComponent
  FollowCamera :: UCameraComponent
  calls :: "engine_call list"

datatype error = CheckFailed

section \<open>AParkourGameCharacter: member functions\<close>

text \<open>Issuing a call on an engine object appends it to the call list.\<close>

definition call :: "engine_call \<Rightarrow> character \<Rightarrow> character" where
  "call c s = s\<lparr>calls := calls s @ [c]\<rparr>"

text \<open>
  Modelled from the spec: \<^verbatim>\<open>UKismetMathLibrary::InRange_FloatFloat\<close> belongs to the engine
  and its body is not part of this repository; the specification describes the test as
  membership in a height band, whose two ends are included or not according to the two flags.
\<close>

definition InRange_FloatFloat :: "float \<Rightarrow> float \<Rightarrow> float \<Rightarrow> bool \<Rightarrow> bool \<Rightarrow> bool" where
  "InRange_FloatFloat Value Min' Max' InclusiveMin InclusiveMax =
     ((if InclusiveMin then Min' \<le> Value else Min' < Value) \<and>
      (if InclusiveMax then Value \<le> Max' else Value < Max'))"

text \<open>
  Modelled from the spec: \<^verbatim>\<open>UKismetSystemLibrary::SphereTraceSingle\<close> belongs to the engine
  and its body is not part of this repository. It sweeps the sphere through the world, returns
  whether the sweep hit, and on a hit stores the hit in the out-parameter. On a miss the
  out-parameter keeps the value the caller gave it: the specification says that the
  \<open>Normal\<close> and \<open>Location\<close> read after a miss are the force-initialised zero vectors.
\<close>

definition SphereTraceSingle ::
  "engine \<Rightarrow> trace_query \<Rightarrow> FHitResult \<Rightarrow> bool \<times> FHitResult" where
  "SphereTraceSingle e q OutHit =
     (case GetWorld e q of None \<Rightarrow> (False, OutHit) | Some h \<Rightarrow> (True, h))"

text \<open>
  The constructor runs on the object that the base class \<^verbatim>\<open>ACharacter\<close> has constructed
  (the argument). The member initialisers \<^verbatim>\<open>m_wallNormal()\<close> and \<^verbatim>\<open>m_wallLocation()\<close> run
  \<^verbatim>\<open>FVector\<close>'s default constructor, which the engine declares as performing no
  initialisation, so the two fields keep whatever the argument holds. The literal \<^verbatim>\<open>0.2f\<close>
  denotes the binary32 value 13421773 / 67108864.
\<close>

definition AParkourGameCharacter :: "character \<Rightarrow> character" where
  "AParkourGameCharacter base =
     (let s0 = base\<lparr>m_isClimbing := False\<rparr>;
          s1 = call (Call_InitCapsuleSize 42 96) s0;
          s2 = s1\<lparr>BaseTurnRate := 45, BaseLookUpRate := 45\<rparr>;
          s3 = s2\<lparr>bUseControllerRotationPitch := False,
                  bUseControllerRotationYaw := False,
                  bUseControllerRotationRoll := False\<rparr>;
          s4 = s3\<lparr>CharacterMovement := (CharacterMovement s3)
                  \<lparr>bOrientRotationToMovement := True,
                   RotationRate := FRotator 0 540 0,
                   JumpZVelocity := 600,
                   AirControl := 13421773 / 67108864\<rparr>\<rparr>;
          s5 = call (Call_SetupAttachment ''CameraBoom'' ''RootComponent'' None)
                 (call (Call_CreateDefaultSubobject ''CameraBoom'') s4);
          s6 = s5\<lparr>CameraBoom := (CameraBoom s5)
                  \<lparr>TargetArmLength := 300, SpringArm_bUsePawnControlRotation := True\<rparr>\<rparr>;
          s7 = call (Call_SetupAttachment ''FollowCamera'' ''CameraBoom''
                       (Some ''USpringArmComponent::SocketName''))
                 (call (Call_CreateDefaultSubobject ''FollowCamera'') s6)
      in s7\<lparr>FollowCamera := (FollowCamera s7)
                  \<lparr>Camera_bUsePawnControlRotation := False\<rparr>\<rparr>)"

text \<open>
  \<^verbatim>\<open>check(PlayerInputComponent)\<close> stops the program on a null pointer; otherwise the bindings
  are added to the component in the order of the source. The character itself is not touched.
\<close>

definition SetupPlayerInputComponent :: "UInputComponent option \<Rightarrow> error + UInputComponent" where
  "SetupPlayerInputComponent PlayerInputComponent =
     (case PlayerInputComponent of
        None \<Rightarrow> Inl CheckFailed
      | Some b \<Rightarrow> Inr (b @
          [BindAction ''Jump'' IE_Pressed ACharacter_Jump,
           BindAction ''Jump'' IE_Released ACharacter_StopJumping,
           BindAxis ''MoveForward'' H_MoveForward,
           BindAxis ''MoveRight'' H_MoveRight,
           BindAxis ''Turn'' APawn_AddControllerYawInput,
           BindAxis ''TurnRate'' H_TurnAtRate,
           BindAxis ''LookUp'' APawn_AddControllerPitchInput,
           BindAxis ''LookUpRate'' H_LookUpAtRate,
           BindTouch IE_Pressed H_TouchStarted,
           BindTouch IE_Released H_TouchStopped,
           BindAction ''ResetVR'' IE_Pressed H_OnResetVR,
           BindAction ''Sprint'' IE_Pressed H_StartSprint,
           BindAction ''Sprint'' IE_Released H_StopSprint]))"

definition Hang :: "character \<Rightarrow> character" where
  "Hang s =
     (let s1 = call (Call_PlayAnimMontage (Climb s) 1) s;
          s2 = call Call_Montage_Pause s1
      in s2\<lparr>m_isClimbing := True\<rparr>)"

text \<open>
  The arguments of the trace that \<^verbatim>\<open>ForwardTrace\<close> casts. The local \<^verbatim>\<open>traceParams\<close> of the
  two trace functions is constructed and never used, so it has no counterpart here.
\<close>

definition ForwardTrace_query :: "engine \<Rightarrow> trace_query" where
  "ForwardTrace_query e =
     (let r = FloatRounding e;
          start = GetActorLocation e;
          end = FVector_plus r (FVector_scale r (GetActorForwardVector e) 150) start
      in \<lparr>Start = start, End = end, Radius = 10,
          TraceChannel = ConvertToTraceType ECC_Visibility, bTraceComplex = False,
          ActorsToIgnore = [GetOwner e], DrawDebugType = ForOneFrame,
          bIgnoreSelf = True, TraceColor = Red\<rparr>)"

definition ForwardTrace :: "engine \<Rightarrow> character \<Rightarrow> character" where
  "ForwardTrace e s =
     (let (bHit, hit) = SphereTraceSingle e (ForwardTrace_query e) FHitResult_ForceInit;
          s1 = call (Call_SphereTraceSingle (ForwardTrace_query e)) s
      in s1\<lparr>m_wallNormal := Normal hit, m_wallLocation := Location hit\<rparr>)"

text \<open>The arguments of the trace that \<^verbatim>\<open>HeightTrace\<close> casts.\<close>

definition HeightTrace_query :: "engine \<Rightarrow> trace_query" where
  "HeightTrace_query e =
     (let r = FloatRounding e;
          start = FVector_plus r
                    (FVector_plus r (GetActorLocation e)
                       (FVector_scale r (GetActorForwardVector e) 75))
                    (FVector 0 0 500);
          end = FVector_minus r start (FVector 0 0 500)
      in \<lparr>Start = start, End = end, Radius = 10,
          TraceChannel = ConvertToTraceType ECC_Visibility, bTraceComplex = False,
          ActorsToIgnore = [GetOwner e], DrawDebugType = ForOneFrame,
          bIgnoreSelf = True, TraceColor = Blue\<rparr>)"

definition HeightTrace :: "engine \<Rightarrow> character \<Rightarrow> character" where
  "HeightTrace e s =
     (let (bHit, hit) = SphereTraceSingle e (HeightTrace_query e) FHitResult_ForceInit;
          s1 = call (Call_SphereTraceSingle (HeightTrace_query e)) s
      in if bHit then
           (let location = InRange_FloatFloat
                  (fsub (FloatRounding e)
                     (Z (Location hit)) (Z (GetSocketLocation e ''HipsSocket'')))
                  (- 50) 0 True True
            in if location then
                 (let s2 = call (Call_SetMovementMode MOVE_Flying) s1;
                      s3 = call Call_StopMovementImmediately s2
                  in Hang s3)
               else s1)
         else s1)"

definition Tick :: "engine \<Rightarrow> float \<Rightarrow> character \<Rightarrow> character" where
  "Tick e DeltaTime s =
     (let s1 = call (Call_Super_Tick DeltaTime) s;
          s2 = ForwardTrace e s1
      in HeightTrace e s2)"

definition OnResetVR :: "character \<Rightarrow> character" where
  "OnResetVR s = call Call_ResetOrientationAndPosition s"

definition TouchStarted :: "nat \<Rightarrow> FVector \<Rightarrow> character \<Rightarrow> character" where
  "TouchStarted FingerIndex Loc s = call Call_Jump s"

definition TouchStopped :: "nat \<Rightarrow> FVector \<Rightarrow> character \<Rightarrow> character" where
  "TouchStopped FingerIndex Loc s = call Call_StopJumping s"

definition TurnAtRate :: "engine \<Rightarrow> float \<Rightarrow> character \<Rightarrow> character" where
  "TurnAtRate e Rate s =
     call (Call_AddControllerYawInput
             (fmul (FloatRounding e) (fmul (FloatRounding e) Rate (BaseTurnRate s))
                (GetDeltaSeconds e))) s"

definition LookUpAtRate :: "engine \<Rightarrow> float \<Rightarrow> character \<Rightarrow> character" where
  "LookUpAtRate e Rate s =
     call (Call_AddControllerPitchInput
             (fmul (FloatRounding e) (fmul (FloatRounding e) Rate (BaseLookUpRate s))
                (GetDeltaSeconds e))) s"

definition MoveForward :: "engine \<Rightarrow> float \<Rightarrow> character \<Rightarrow> character" where
  "MoveForward e Value s =
     (case Controller e of
        None \<Rightarrow> s
      | Some c \<Rightarrow>
          if Value \<noteq> 0 then
            (let Rotation = GetControlRotation c;
                 YawRotation = FRotator 0 (Yaw Rotation) 0;
                 Direction = GetUnitAxis e (FRotationMatrix YawRotation) EAxis_X
             in call (Call_AddMovementInput Direction Value) s)
          else s)"

definition MoveRight :: "engine \<Rightarrow> float \<Rightarrow> character \<Rightarrow> character" where
  "MoveRight e Value s =
     (case Controller e of
        None \<Rightarrow> s
      | Some c \<Rightarrow>
          if Value \<noteq> 0 \<and> m_isClimbing s = False then
            (let Rotation = GetControlRotation c;
                 YawRotation = FRotator 0 (Yaw Rotation) 0;
                 Direction = GetUnitAxis e (FRotationMatrix YawRotation) EAxis_Y
             in call (Call_AddMovementInput Direction Value) s)
          else s)"

definition StartSprint :: "character \<Rightarrow> character" where
  "StartSprint s = s\<lparr>CharacterMovement := (CharacterMovement s)\<lparr>MaxWalkSpeed := 1000\<rparr>\<rparr>"

definition StopSprint :: "character \<Rightarrow> character" where
  "StopSprint s = s\<lparr>CharacterMovement := (CharacterMovement s)\<lparr>MaxWalkSpeed := 600\<rparr>\<rparr>"

section \<open>Sequences of frames and of operations\<close>

text \<open>The host calls \<^verbatim>\<open>Tick\<close> once per frame; a frame is what the host answers during that
  call, with the frame's \<^verbatim>\<open>DeltaTime\<close>.\<close>

fun Ticks :: "(engine \<times> float) list \<Rightarrow> character \<Rightarrow> character" where
  "Ticks [] s = s"
| "Ticks ((e, DeltaTime) # frames) s = Ticks frames (Tick e DeltaTime s)"

text \<open>The member functions of the class, as operations that the host or a binding can invoke.\<close>

datatype operation =
  Op_SetupPlayerInputComponent "UInputComponent option"
  | Op_Tick float
  | Op_Hang
  | Op_ForwardTrace
  | Op_HeightTrace
  | Op_OnResetVR
  | Op_TouchStarted nat FVector
  | Op_TouchStopped nat FVector
  | Op_TurnAtRate float
  | Op_LookUpAtRate float
  | Op_MoveForward float
  | Op_MoveRight float
  | Op_StartSprint
  | Op_StopSprint

fun exec :: "engine \<Rightarrow> operation \<Rightarrow> character \<Rightarrow> error + character" where
  "exec e (Op_SetupPlayerInputComponent pic) s =
     (case SetupPlayerInputComponent pic of Inl err \<Rightarrow> Inl err | Inr _ \<Rightarrow> Inr s)"
| "exec e (Op_Tick DeltaTime) s = Inr (Tick e DeltaTime s)"
| "exec e Op_Hang s = Inr (Hang s)"
| "exec e Op_ForwardTrace s = Inr (ForwardTrace e s)"
| "exec e Op_HeightTrace s = Inr (HeightTrace e s)"
| "exec e Op_OnResetVR s = Inr (OnResetVR s)"
| "exec e (Op_TouchStarted i l) s = Inr (TouchStarted i l s)"
| "exec e (Op_TouchStopped i l) s = Inr (TouchStopped i l s)"
| "exec e (Op_TurnAtRate Rate) s = Inr (TurnAtRate e Rate s)"
| "exec e (Op_LookUpAtRate Rate) s = Inr (LookUpAtRate e Rate s)"
| "exec e (Op_MoveForward Value) s = Inr (MoveForward e Value s)"
| "exec e (Op_MoveRight Value) s = Inr (MoveRight e Value s)"
| "exec e Op_StartSprint s = Inr (StartSprint s)"
| "exec e Op_StopSprint s = Inr (StopSprint s)"

text \<open>A sequence of operations, each with the host's answers at that moment; a failed
  \<^verbatim>\<open>check\<close> ends the run.\<close>

fun run :: "(engine \<times> operation) list \<Rightarrow> character \<Rightarrow> error + character" where
  "run [] s = Inr s"
| "run ((e, op) # rest) s =
     (case exec e op s of Inl err \<Rightarrow> Inl err | Inr s' \<Rightarrow> run rest s')"

fun is_SphereTraceSingle :: "engine_call \<Rightarrow> bool" where
  "is_SphereTraceSingle (Call_SphereTraceSingle q) = True"
| "is_SphereTraceSingle _ = False"

section \<open>Concrete frames and characters\<close>

text \<open>A character as the base class might hand it to the constructor, standing at the origin
  of a small test world.\<close>

definition example_base :: character where
  "example_base =
     \<lparr>m_wallNormal = FVector 1 0 0, m_wallLocation = FVector 7 8 9, m_isClimbing = True,
      Climb = Some 1, BaseTurnRate = 0, BaseLookUpRate = 0,
      bUseControllerRotationPitch = True, bUseControllerRotationYaw = True,
      bUseControllerRotationRoll = True,
      CharacterMovement = \<lparr>bOrientRotationToMovement = False, RotationRate = FRotator 0 360 0,
        JumpZVelocity = 420, AirControl = 1 / 16, MaxWalkSpeed = 600\<rparr>,
      CameraBoom = \<lparr>TargetArmLength = 0, SpringArm_bUsePawnControlRotation = False\<rparr>,
      FollowCamera = \<lparr>Camera_bUsePawnControlRotation = True\<rparr>,
      calls = []\<rparr>"

text \<open>The axes of the identity rotation; other rotations are not needed by the examples.\<close>

fun example_GetUnitAxis :: "FRotationMatrix \<Rightarrow> EAxis \<Rightarrow> FVector" where
  "example_GetUnitAxis (FRotationMatrix r) EAxis_X =
     (if r = FRotator 0 0 0 then FVector 1 0 0 else ZeroVector)"
| "example_GetUnitAxis (FRotationMatrix r) EAxis_Y =
     (if r = FRotator 0 0 0 then FVector 0 1 0 else ZeroVector)"
| "example_GetUnitAxis (FRotationMatrix r) EAxis_Z =
     (if r = FRotator 0 0 0 then FVector 0 0 1 else ZeroVector)"
| "example_GetUnitAxis (FRotationMatrix r) EAxis_None = ZeroVector"

text \<open>
  A rounding that never rounds. Every intermediate result on the frames below is a binary32
  value, on which all roundings agree.
\<close>

definition exact_rounding :: rounding where
  "exact_rounding = Abs_rounding id"

text \<open>A frame whose traces all miss.\<close>

definition example_miss :: engine where
  "example_miss =
     \<lparr>GetActorLocation = FVector 0 0 100, GetActorForwardVector = FVector 1 0 0,
      GetSocketLocation = (\<lambda>n. FVector 0 0 100), GetOwner = None,
      Controller = Some \<lparr>GetControlRotation = FRotator 30 0 10\<rparr>,
      GetWorld = (\<lambda>q. None),
      GetUnitAxis = example_GetUnitAxis, GetDeltaSeconds = 1 / 64,
      FloatRounding = exact_rounding\<rparr>"

text \<open>A frame whose traces all hit at height \<open>h\<close>, with the hips at height 100.\<close>

definition example_hit :: "float \<Rightarrow> engine" where
  "example_hit h =
     example_miss\<lparr>GetWorld :=
       (\<lambda>q. Some \<lparr>bBlockingHit = True, Location = FVector 75 0 h,
                    Normal = FVector 0 0 1\<rparr>)\<rparr>"

text \<open>The same frame without a controller.\<close>

definition example_no_controller :: engine where
  "example_no_controller = example_miss\<lparr>Controller := None\<rparr>"

text \<open>
  A rounding that does round: on the half unit in the last place just below -50 it gives -50,
  as binary32 round-to-nearest-even does, and it is exact everywhere else.
\<close>

definition snap_below_minus_50 :: "real \<Rightarrow> real" where
  "snap_below_minus_50 x = (if - 50 - 1 / 2 ^ 19 \<le> x \<and> x < - 50 then - 50 else x)"

definition boundary_rounding :: rounding where
  "boundary_rounding = Abs_rounding snap_below_minus_50"

text \<open>
  A frame on the boundary of the band: the hit is at Z = -30 - 1/524288 and the hips are at
  Z = 20, both binary32 values. The exact difference is below -50, the rounded one is -50.
\<close>

definition example_boundary :: engine where
  "example_boundary =
     example_miss\<lparr>GetSocketLocation := (\<lambda>n. FVector 0 0 20),
       GetWorld :=
         (\<lambda>q. Some \<lparr>bBlockingHit = True, Location = FVector 75 0 (- 30 - 1 / 2 ^ 19),
                      Normal = FVector 0 0 1\<rparr>),
       FloatRounding := boundary_rounding\<rparr>"

text \<open>A sequence of member-function calls, each with the frame in which it happens.\<close>

definition example_steps :: "(engine \<times> operation) list" where
  "example_steps =
     [(example_miss, Op_MoveRight 1),
      (example_miss, Op_Tick (1 / 64)),
      (example_hit 120, Op_HeightTrace),
      (example_miss, Op_StopSprint),
      (example_no_controller, Op_SetupPlayerInputComponent (Some [])),
      (example_miss, Op_MoveForward 1)]"

section \<open>Auxiliary facts\<close>

text \<open>What is known of every rounding.\<close>

lemma round_with_mono: "x \<le> y \<Longrightarrow> round_with r x \<le> round_with r y"
  using round_with [of r] by (auto simp: mono_def)

lemma round_with_idem: "round_with r (round_with r x) = round_with r x"
  using round_with [of r] by auto

lemma round_with_binary32: "x \<in> binary32 \<Longrightarrow> round_with r x = x"
  using round_with [of r] by auto

lemma binary32_of_int: "\<bar>m\<bar> < 2 ^ 24 \<Longrightarrow> of_int m \<in> binary32"
proof -
  assume "\<bar>m\<bar> < 2 ^ 24"
  then have "\<bar>m\<bar> < 2 ^ 24 \<and>
      (((0::nat) \<le> 104 \<and> (of_int m :: real) = of_int m * 2 ^ (0::nat))
        \<or> ((0::nat) \<le> 149 \<and> (of_int m :: real) = of_int m / 2 ^ (0::nat)))"
    by simp
  then show ?thesis unfolding binary32_def by blast
qed

lemma round_with_0: "round_with r 0 = 0"
  using round_with_binary32 [OF binary32_of_int [of 0], of r] by simp

lemma round_with_minus_50: "round_with r (- 50) = - 50"
  using round_with_binary32 [OF binary32_of_int [of "- 50"], of r] by simp

lemma round_with_exact: "round_with exact_rounding x = x"
  by (simp add: exact_rounding_def Abs_rounding_inverse mono_def)

text \<open>A difference inside the band stays inside it when it is rounded.\<close>

lemma fsub_band:
  assumes "- 50 \<le> a - b" and "a - b \<le> 0"
  shows "- 50 \<le> fsub r a b \<and> fsub r a b \<le> 0"
proof -
  have "round_with r (- 50) \<le> round_with r (a - b)"
    using assms(1) by (rule round_with_mono)
  moreover have "round_with r (a - b) \<le> round_with r 0"
    using assms(2) by (rule round_with_mono)
  ultimately show ?thesis
    by (simp add: fsub_def round_with_0 round_with_minus_50)
qed

text \<open>Adding or subtracting zero does not round a rounded value again.\<close>

lemma fadd_0_right: "fadd r (fadd r a b) 0 = fadd r a b"
  by (simp add: fadd_def round_with_idem)

lemma fsub_0_right: "fsub r (fadd r a b) 0 = fadd r a b"
  by (simp add: fadd_def fsub_def round_with_idem)

lemma calls_call: "calls (call c s) = calls s @ [c]"
  by (simp add: call_def)

lemma m_isClimbing_call: "m_isClimbing (call c s) = m_isClimbing s"
  by (simp add: call_def)

lemma m_isClimbing_Hang: "m_isClimbing (Hang s) = True"
  by (simp add: Hang_def Let_def)

lemma calls_Hang:
  "calls (Hang s) = calls s @ [Call_PlayAnimMontage (Climb s) 1, Call_Montage_Pause]"
  by (simp add: Hang_def Let_def call_def)

lemma m_isClimbing_ForwardTrace: "m_isClimbing (ForwardTrace e s) = m_isClimbing s"
  by (simp add: ForwardTrace_def Let_def call_def split: prod.splits)

lemma calls_ForwardTrace:
  "calls (ForwardTrace e s) = calls s @ [Call_SphereTraceSingle (ForwardTrace_query e)]"
  by (simp add: ForwardTrace_def Let_def call_def split: prod.splits)



text \<open>What \<^verbatim>\<open>HeightTrace\<close> does, by the two tests of its body.\<close>

lemma HeightTrace_cases:
  assumes "SphereTraceSingle e (HeightTrace_query e) FHitResult_ForceInit = (bHit, hit)"
  shows "HeightTrace e s =
     (if bHit
         \<and> - 50 \<le> fsub (FloatRounding e)
                     (Z (Location hit)) (Z (GetSocketLocation e ''HipsSocket''))
         \<and> fsub (FloatRounding e)
              (Z (Location hit)) (Z (GetSocketLocation e ''HipsSocket'')) \<le> 0
      then Hang (call Call_StopMovementImmediately
                  (call (Call_SetMovementMode MOVE_Flying)
                    (call (Call_SphereTraceSingle (HeightTrace_query e)) s)))
      else call (Call_SphereTraceSingle (HeightTrace_query e)) s)"
  using assms by (simp add: HeightTrace_def Let_def InRange_FloatFloat_def)

lemma HeightTrace_hang:
  assumes "SphereTraceSingle e (HeightTrace_query e) FHitResult_ForceInit = (True, hit)"
    and "- 50 \<le> fsub (FloatRounding e)
                   (Z (Location hit)) (Z (GetSocketLocation e ''HipsSocket''))"
    and "fsub (FloatRounding e)
           (Z (Location hit)) (Z (GetSocketLocation e ''HipsSocket'')) \<le> 0"
  shows "HeightTrace e s =
      Hang (call Call_StopMovementImmediately
             (call (Call_SetMovementMode MOVE_Flying)
               (call (Call_SphereTraceSingle (HeightTrace_query e)) s)))"
  using assms by (simp add: HeightTrace_def Let_def InRange_FloatFloat_def)

lemma HeightTrace_pass:
  assumes "SphereTraceSingle e (HeightTrace_query e) FHitResult_ForceInit = (bHit, hit)"
    and "\<not> bHit
         \<or> fsub (FloatRounding e)
              (Z (Location hit)) (Z (GetSocketLocation e ''HipsSocket'')) < - 50
         \<or> 0 < fsub (FloatRounding e)
                  (Z (Location hit)) (Z (GetSocketLocation e ''HipsSocket''))"
  shows "HeightTrace e s = call (Call_SphereTraceSingle (HeightTrace_query e)) s"
  using assms by (auto simp add: HeightTrace_def Let_def InRange_FloatFloat_def)

lemma HeightTrace_keeps_climbing: "m_isClimbing s \<Longrightarrow> m_isClimbing (HeightTrace e s)"
proof -
  assume c: "m_isClimbing s"
  obtain bHit hit where
    r: "SphereTraceSingle e (HeightTrace_query e) FHitResult_ForceInit = (bHit, hit)"
    by (cases "SphereTraceSingle e (HeightTrace_query e) FHitResult_ForceInit")
  show ?thesis
    using c by (simp add: HeightTrace_cases [OF r] m_isClimbing_Hang m_isClimbing_call)
qed


lemma Tick_keeps_climbing: "m_isClimbing s \<Longrightarrow> m_isClimbing (Tick e dt s)"
  by (simp add: Tick_def Let_def HeightTrace_keeps_climbing m_isClimbing_ForwardTrace
      m_isClimbing_call)

lemma Ticks_keep_climbing: "m_isClimbing s \<Longrightarrow> m_isClimbing (Ticks frames s)"
proof (induction frames arbitrary: s)
  case Nil
  then show ?case by simp
next
  case (Cons f frames)
  obtain e dt where f: "f = (e, dt)" by (cases f)
  from Cons.prems have "m_isClimbing (Tick e dt s)" by (rule Tick_keeps_climbing)
  then have "m_isClimbing (Ticks frames (Tick e dt s))" by (rule Cons.IH)
  then show ?case by (simp add: f)
qed

text \<open>The concrete frames.\<close>

lemma example_trace:
  "SphereTraceSingle example_miss q OutHit = (False, OutHit)"
  "SphereTraceSingle (example_hit z) q OutHit =
     (True, \<lparr>bBlockingHit = True, Location = FVector 75 0 z, Normal = FVector 0 0 1\<rparr>)"
  by (simp_all add: SphereTraceSingle_def example_hit_def example_miss_def)

lemma example_hips:
  "GetSocketLocation example_miss n = FVector 0 0 100"
  "GetSocketLocation (example_hit z) n = FVector 0 0 100"
  by (simp_all add: example_hit_def example_miss_def)

lemma example_arith:
  "fadd (FloatRounding example_miss) a b = a + b"
  "fsub (FloatRounding example_miss) a b = a - b"
  "fmul (FloatRounding example_miss) a b = a * b"
  "fadd (FloatRounding (example_hit z)) a b = a + b"
  "fsub (FloatRounding (example_hit z)) a b = a - b"
  "fmul (FloatRounding (example_hit z)) a b = a * b"
  by (simp_all add: fadd_def fsub_def fmul_def round_with_exact example_hit_def
      example_miss_def)

text \<open>No binary32 value lies in the half unit in the last place just below -50.\<close>

lemma binary32_gap:
  assumes "x \<in> binary32"
  shows "\<not> (- 50 - 1 / 2 ^ 19 \<le> x \<and> x < - 50)"
proof
  assume b: "- 50 - 1 / 2 ^ 19 \<le> x \<and> x < - 50"
  from assms obtain m :: int and k :: nat where m: "\<bar>m\<bar> < 2 ^ 24"
    and c: "(k \<le> 104 \<and> x = of_int m * 2 ^ k) \<or> (k \<le> 149 \<and> x = of_int m / 2 ^ k)"
    unfolding binary32_def by blast
  from c show False
  proof
    assume "k \<le> 104 \<and> x = of_int m * 2 ^ k"
    then have x: "x = of_int (m * 2 ^ k)" by simp
    with b have "of_int (m * 2 ^ k) < (- 50 :: real)" by simp
    then have "m * 2 ^ k < - 50" by linarith
    then have "m * 2 ^ k \<le> - 51" by simp
    then have "(of_int (m * 2 ^ k) :: real) \<le> - 51" by linarith
    with b x show False by simp
  next
    assume a: "k \<le> 149 \<and> x = of_int m / 2 ^ k"
    then have x: "x * 2 ^ k = of_int m" by simp
    have p: "(0::real) < 2 ^ k" by simp
    from b have "x < - 50" by simp
    then have lt: "x * 2 ^ k < - 50 * 2 ^ k" using p by (rule mult_strict_right_mono)
    from b have "- 50 - 1 / 2 ^ 19 \<le> x" by simp
    then have ge: "(- 50 - 1 / 2 ^ 19) * 2 ^ k \<le> x * 2 ^ k"
      using p by (intro mult_right_mono) simp_all
    from lt x have "(of_int m :: real) < of_int (- 50 * 2 ^ k)" by simp
    then have mlt: "m < - 50 * 2 ^ k" by linarith
    with m have small: "50 * (2::int) ^ k < 2 ^ 24" by linarith
    have k18: "k \<le> 18"
    proof (rule ccontr)
      assume "\<not> k \<le> 18"
      then have "19 \<le> k" by simp
      then have "(2::int) ^ 19 \<le> 2 ^ k" by (rule power_increasing) simp
      with small show False by simp
    qed
    then have "(2::real) ^ k \<le> 2 ^ 18" by (intro power_increasing) simp_all
    then have half: "(1 / 2 ^ 19) * (2::real) ^ k \<le> 1 / 2" by simp
    from mlt have "m \<le> - 50 * 2 ^ k - 1" by simp
    then have "(of_int m :: real) \<le> of_int (- 50 * 2 ^ k - 1)" by linarith
    then have "(of_int m :: real) \<le> - 50 * 2 ^ k - 1" by simp
    with ge x half show False by (simp add: algebra_simps)
  qed
qed

lemma round_with_boundary: "round_with boundary_rounding x = snap_below_minus_50 x"
proof -
  have "mono snap_below_minus_50"
    by (auto simp: mono_def snap_below_minus_50_def)
  moreover have "\<forall>x. snap_below_minus_50 (snap_below_minus_50 x) = snap_below_minus_50 x"
    by (auto simp: snap_below_minus_50_def)
  moreover have "\<forall>x \<in> binary32. snap_below_minus_50 x = x"
    using binary32_gap by (auto simp: snap_below_minus_50_def)
  ultimately show ?thesis
    by (simp add: boundary_rounding_def Abs_rounding_inverse)
qed

lemma example_boundary_trace:
  "SphereTraceSingle example_boundary q OutHit =
     (True, \<lparr>bBlockingHit = True, Location = FVector 75 0 (- 30 - 1 / 2 ^ 19),
             Normal = FVector 0 0 1\<rparr>)"
  by (simp add: SphereTraceSingle_def example_boundary_def example_miss_def)

lemma example_boundary_difference:
  "fsub (FloatRounding example_boundary)
     (Z (Location \<lparr>bBlockingHit = True, Location = FVector 75 0 (- 30 - 1 / 2 ^ 19),
                   Normal = FVector 0 0 1\<rparr>))
     (Z (GetSocketLocation example_boundary n)) = - 50"
  by (simp add: fsub_def round_with_boundary snap_below_minus_50_def example_boundary_def
      example_miss_def)

lemma example_hit_80_hangs:
  "HeightTrace (example_hit 80) s =
      Hang (call Call_StopMovementImmediately
             (call (Call_SetMovementMode MOVE_Flying)
               (call (Call_SphereTraceSingle (HeightTrace_query (example_hit 80))) s)))"
  by (rule HeightTrace_hang [OF example_trace(2)]) (simp_all add: example_hips example_arith)

lemma example_hit_80_climbs: "m_isClimbing (Tick (example_hit 80) dt s)"
  by (simp add: Tick_def Let_def example_hit_80_hangs m_isClimbing_Hang)

lemma example_constructed: "m_isClimbing (AParkourGameCharacter example_base) = False"
  by (simp add: AParkourGameCharacter_def example_base_def call_def Let_def)

section \<open>The ledge detector\<close>

text \<open>
  Claim C1. In every frame in which the downward trace of \<^verbatim>\<open>HeightTrace\<close> reports a hit and
  the hit location's Z minus the Z of the mesh's \<^verbatim>\<open>HipsSocket\<close> lies in the band from -50 to
  0, both ends included, the character goes into the climbing pose: after the trace the code
  sets the movement mode to \<^verbatim>\<open>MOVE_Flying\<close>, stops movement immediately, plays the \<^verbatim>\<open>Climb\<close>
  montage at rate 1 and pauses it, in this order, and \<open>m_isClimbing\<close> becomes true; nothing
  else of the character changes. The same holds for the whole \<^verbatim>\<open>Tick\<close> of such a frame.
  The band is stated for the exact difference: the float difference that the code tests is
  its rounding, and rounding keeps a value of the band inside the band.
\<close>

theorem HeightTrace_ledge_hangs:
  assumes "SphereTraceSingle e (HeightTrace_query e) FHitResult_ForceInit = (True, hit)"
    and "- 50 \<le> Z (Location hit) - Z (GetSocketLocation e ''HipsSocket'')"
    and "Z (Location hit) - Z (GetSocketLocation e ''HipsSocket'') \<le> 0"
  shows "HeightTrace e s =
           s\<lparr>m_isClimbing := True,
             calls := calls s @
               [Call_SphereTraceSingle (HeightTrace_query e),
                Call_SetMovementMode MOVE_Flying,
                Call_StopMovementImmediately,
                Call_PlayAnimMontage (Climb s) 1,
                Call_Montage_Pause]\<rparr>
         \<and> m_isClimbing (Tick e DeltaTime s)
         \<and> calls (Tick e DeltaTime s) = calls s @
               [Call_Super_Tick DeltaTime,
                Call_SphereTraceSingle (ForwardTrace_query e),
                Call_SphereTraceSingle (HeightTrace_query e),
                Call_SetMovementMode MOVE_Flying,
                Call_StopMovementImmediately,
                Call_PlayAnimMontage (Climb s) 1,
                Call_Montage_Pause]"
proof -
  note band = fsub_band [OF assms(2) assms(3), of "FloatRounding e"]
  have H: "HeightTrace e s' =
      Hang (call Call_StopMovementImmediately
             (call (Call_SetMovementMode MOVE_Flying)
               (call (Call_SphereTraceSingle (HeightTrace_query e)) s')))" for s'
    using band by (intro HeightTrace_hang [OF assms(1)]) simp_all
  have 1: "HeightTrace e s =
           s\<lparr>m_isClimbing := True,
             calls := calls s @
               [Call_SphereTraceSingle (HeightTrace_query e),
                Call_SetMovementMode MOVE_Flying,
                Call_StopMovementImmediately,
                Call_PlayAnimMontage (Climb s) 1,
                Call_Montage_Pause]\<rparr>"
    by (simp add: H Hang_def call_def Let_def)
  have T: "Tick e DeltaTime s
      = HeightTrace e (ForwardTrace e (call (Call_Super_Tick DeltaTime) s))"
    by (simp add: Tick_def Let_def)
  have 2: "m_isClimbing (Tick e DeltaTime s)"
    by (simp add: T H m_isClimbing_Hang)
  have C: "Climb (call c s') = Climb s'" "Climb (ForwardTrace e s') = Climb s'" for c s'
    by (simp_all add: ForwardTrace_def call_def Let_def split: prod.splits)
  have 3: "calls (Tick e DeltaTime s) = calls s @
               [Call_Super_Tick DeltaTime,
                Call_SphereTraceSingle (ForwardTrace_query e),
                Call_SphereTraceSingle (HeightTrace_query e),
                Call_SetMovementMode MOVE_Flying,
                Call_StopMovementImmediately,
                Call_PlayAnimMontage (Climb s) 1,
                Call_Montage_Pause]"
    unfolding T H calls_Hang
    by (simp add: calls_call calls_ForwardTrace C)
  from 1 2 3 show ?thesis by simp
qed

theorem HeightTrace_ledge_hangs_witness:
  "HeightTrace (example_hit 80) (AParkourGameCharacter example_base) =
     (AParkourGameCharacter example_base)
       \<lparr>m_isClimbing := True,
        calls := calls (AParkourGameCharacter example_base) @
          [Call_SphereTraceSingle (HeightTrace_query (example_hit 80)),
           Call_SetMovementMode MOVE_Flying,
           Call_StopMovementImmediately,
           Call_PlayAnimMontage (Some 1) 1,
           Call_Montage_Pause]\<rparr>
   \<and> m_isClimbing (AParkourGameCharacter example_base) = False
   \<and> m_isClimbing (Tick (example_hit 80) (1 / 64) (AParkourGameCharacter example_base))"
proof -
  let ?e = "example_hit 80"
  let ?hit = "\<lparr>bBlockingHit = True, Location = FVector 75 0 80, Normal = FVector 0 0 1\<rparr>"
  have a: "SphereTraceSingle ?e (HeightTrace_query ?e) FHitResult_ForceInit = (True, ?hit)"
    by (rule example_trace)
  have b: "- 50 \<le> Z (Location ?hit) - Z (GetSocketLocation ?e ''HipsSocket'')"
    by (simp add: example_hips)
  have c: "Z (Location ?hit) - Z (GetSocketLocation ?e ''HipsSocket'') \<le> 0"
    by (simp add: example_hips)
  have d: "Climb (AParkourGameCharacter example_base) = Some 1"
    by (simp add: AParkourGameCharacter_def example_base_def call_def Let_def)
  note f = example_constructed
  from HeightTrace_ledge_hangs [OF a b c, of "AParkourGameCharacter example_base" "1 / 64"] d f
  show ?thesis by simp
qed

text \<open>
  Claim C4, as the specification states it: in every frame in which the downward trace reports
  no hit, or reports a hit whose Z relative to the \<^verbatim>\<open>HipsSocket\<close> lies outside the band from
  -50 to 0 (ends included), \<^verbatim>\<open>HeightTrace\<close> changes no state of the character. The code
  tests the float difference, which is rounded. On the boundary frame the hit is at
  Z = -30 - 1/524288 and the hips are at Z = 20, so the difference, -50 - 1/524288, lies
  outside the band; it is the only value of the frame that is rounded, and it is rounded to
  -50, as binary32 round-to-nearest-even rounds it. \<^verbatim>\<open>HeightTrace\<close> then hangs the character:
  \<open>m_isClimbing\<close> changes from false to true.
\<close>

theorem HeightTrace_rounds_into_band_counterexample:
  "SphereTraceSingle example_boundary (HeightTrace_query example_boundary)
       FHitResult_ForceInit =
     (True, \<lparr>bBlockingHit = True, Location = FVector 75 0 (- 30 - 1 / 2 ^ 19),
             Normal = FVector 0 0 1\<rparr>)
   \<and> (- 30 - 1 / 2 ^ 19) - Z (GetSocketLocation example_boundary ''HipsSocket'')
       < (- 50 :: real)
   \<and> m_isClimbing (AParkourGameCharacter example_base) = False
   \<and> m_isClimbing (HeightTrace example_boundary (AParkourGameCharacter example_base)) = True"
proof -
  have 1: "(- 30 - 1 / 2 ^ 19) - Z (GetSocketLocation example_boundary ''HipsSocket'')
             < (- 50 :: real)"
    by (simp add: example_boundary_def example_miss_def)
  have "HeightTrace example_boundary (AParkourGameCharacter example_base) =
      Hang (call Call_StopMovementImmediately
             (call (Call_SetMovementMode MOVE_Flying)
               (call (Call_SphereTraceSingle (HeightTrace_query example_boundary))
                 (AParkourGameCharacter example_base))))"
  proof (rule HeightTrace_hang [OF example_boundary_trace])
    show "- 50 \<le> fsub (FloatRounding example_boundary)
        (Z (Location \<lparr>bBlockingHit = True, Location = FVector 75 0 (- 30 - 1 / 2 ^ 19),
                      Normal = FVector 0 0 1\<rparr>))
        (Z (GetSocketLocation example_boundary ''HipsSocket''))"
      unfolding example_boundary_difference by simp
    show "fsub (FloatRounding example_boundary)
        (Z (Location \<lparr>bBlockingHit = True, Location = FVector 75 0 (- 30 - 1 / 2 ^ 19),
                      Normal = FVector 0 0 1\<rparr>))
        (Z (GetSocketLocation example_boundary ''HipsSocket'')) \<le> 0"
      unfolding example_boundary_difference by simp
  qed
  then have 2:
    "m_isClimbing (HeightTrace example_boundary (AParkourGameCharacter example_base)) = True"
    by (simp add: m_isClimbing_Hang)
  from example_boundary_trace 1 example_constructed 2 show ?thesis by (intro conjI)
qed

text \<open>
  Claim C4, amended. The only failure handling of the ledge detector is the boolean test of
  the hit: in every frame in which the downward trace reports no hit, or reports a hit for
  which the float difference that the code computes and tests,
  \<^verbatim>\<open>hit.Location.Z - GetSocketLocation( "HipsSocket" ).Z\<close>, lies outside the band from -50 to
  0 (ends included), \<^verbatim>\<open>HeightTrace\<close> changes no state of the character. It issues the trace
  and nothing more: no call that sets the movement mode, stops movement or touches the
  animation, and every field, \<open>m_isClimbing\<close> and the movement component among them, keeps its
  value.
\<close>

theorem HeightTrace_no_ledge_unchanged:
  assumes "SphereTraceSingle e (HeightTrace_query e) FHitResult_ForceInit = (bHit, hit)"
    and "\<not> bHit
         \<or> fsub (FloatRounding e)
              (Z (Location hit)) (Z (GetSocketLocation e ''HipsSocket'')) < - 50
         \<or> 0 < fsub (FloatRounding e)
                  (Z (Location hit)) (Z (GetSocketLocation e ''HipsSocket''))"
  shows "HeightTrace e s =
           s\<lparr>calls := calls s @ [Call_SphereTraceSingle (HeightTrace_query e)]\<rparr>
         \<and> m_isClimbing (HeightTrace e s) = m_isClimbing s
         \<and> CharacterMovement (HeightTrace e s) = CharacterMovement s"
proof -
  have "HeightTrace e s = call (Call_SphereTraceSingle (HeightTrace_query e)) s"
    using assms by (rule HeightTrace_pass)
  then show ?thesis by (simp add: call_def)
qed

theorem HeightTrace_no_ledge_unchanged_witness:
  "HeightTrace example_miss example_base =
     example_base\<lparr>calls := [Call_SphereTraceSingle (HeightTrace_query example_miss)]\<rparr>
   \<and> HeightTrace (example_hit 120) example_base =
     example_base\<lparr>calls := [Call_SphereTraceSingle (HeightTrace_query (example_hit 120))]\<rparr>
   \<and> HeightTrace (example_hit 49) example_base =
     example_base\<lparr>calls := [Call_SphereTraceSingle (HeightTrace_query (example_hit 49))]\<rparr>"
proof -
  have c: "calls example_base = []"
    by (simp add: example_base_def)
  have 1: "HeightTrace example_miss example_base =
     example_base\<lparr>calls := [Call_SphereTraceSingle (HeightTrace_query example_miss)]\<rparr>"
    using HeightTrace_no_ledge_unchanged [OF example_trace(1), of example_base] c
    by simp
  have 2: "HeightTrace (example_hit 120) example_base =
     example_base\<lparr>calls := [Call_SphereTraceSingle (HeightTrace_query (example_hit 120))]\<rparr>"
    using HeightTrace_no_ledge_unchanged [OF example_trace(2) [of 120], of example_base] c
    by (simp add: example_hips example_arith)
  have 3: "HeightTrace (example_hit 49) example_base =
     example_base\<lparr>calls := [Call_SphereTraceSingle (HeightTrace_query (example_hit 49))]\<rparr>"
    using HeightTrace_no_ledge_unchanged [OF example_trace(2) [of 49], of example_base] c
    by (simp add: example_hips example_arith)
  from 1 2 3 show ?thesis by simp
qed

section \<open>The two traces of a frame\<close>

text \<open>
  Claim C2. On every tick the character casts exactly two shape traces, in this order: first
  the forward trace, a sphere of radius 10 swept from the actor location to the actor location
  plus 150 times the actor's forward vector; then the downward trace, a sphere of radius 10
  that starts at the actor location plus 75 times the forward vector plus 500 in Z and is
  swept straight down (X and Y are those of the start) to the start's Z minus 500. The sums,
  products and the difference are those of the code's float arithmetic; whenever each of them
  is a binary32 value, so that nothing is rounded, the coordinates are the exact ones. The
  calls that the tick adds to those already issued contain these two traces and no other
  trace.
\<close>

theorem Tick_casts_two_traces:
  "(\<exists>new. calls (Tick e DeltaTime s) = calls s @ new
      \<and> filter is_SphereTraceSingle new =
          [Call_SphereTraceSingle (ForwardTrace_query e),
           Call_SphereTraceSingle (HeightTrace_query e)])
   \<and> Start (ForwardTrace_query e) = GetActorLocation e
   \<and> End (ForwardTrace_query e) =
       FVector
         (fadd (FloatRounding e)
            (fmul (FloatRounding e) (X (GetActorForwardVector e)) 150) (X (GetActorLocation e)))
         (fadd (FloatRounding e)
            (fmul (FloatRounding e) (Y (GetActorForwardVector e)) 150) (Y (GetActorLocation e)))
         (fadd (FloatRounding e)
            (fmul (FloatRounding e) (Z (GetActorForwardVector e)) 150) (Z (GetActorLocation e)))
   \<and> Radius (ForwardTrace_query e) = 10
   \<and> Start (HeightTrace_query e) =
       FVector
         (fadd (FloatRounding e)
            (X (GetActorLocation e)) (fmul (FloatRounding e) (X (GetActorForwardVector e)) 75))
         (fadd (FloatRounding e)
            (Y (GetActorLocation e)) (fmul (FloatRounding e) (Y (GetActorForwardVector e)) 75))
         (fadd (FloatRounding e)
            (fadd (FloatRounding e)
               (Z (GetActorLocation e)) (fmul (FloatRounding e) (Z (GetActorForwardVector e)) 75))
            500)
   \<and> End (HeightTrace_query e) =
       FVector (X (Start (HeightTrace_query e)))
               (Y (Start (HeightTrace_query e)))
               (fsub (FloatRounding e) (Z (Start (HeightTrace_query e))) 500)
   \<and> Radius (HeightTrace_query e) = 10
   \<and> ({X (GetActorForwardVector e) * 150, Y (GetActorForwardVector e) * 150,
         Z (GetActorForwardVector e) * 150,
         X (GetActorForwardVector e) * 150 + X (GetActorLocation e),
         Y (GetActorForwardVector e) * 150 + Y (GetActorLocation e),
         Z (GetActorForwardVector e) * 150 + Z (GetActorLocation e)} \<subseteq> binary32 \<longrightarrow>
       End (ForwardTrace_query e) =
         FVector (X (GetActorLocation e) + 150 * X (GetActorForwardVector e))
                 (Y (GetActorLocation e) + 150 * Y (GetActorForwardVector e))
                 (Z (GetActorLocation e) + 150 * Z (GetActorForwardVector e)))
   \<and> ({X (GetActorForwardVector e) * 75, Y (GetActorForwardVector e) * 75,
         Z (GetActorForwardVector e) * 75,
         X (GetActorLocation e) + X (GetActorForwardVector e) * 75,
         Y (GetActorLocation e) + Y (GetActorForwardVector e) * 75,
         Z (GetActorLocation e) + Z (GetActorForwardVector e) * 75,
         Z (GetActorLocation e) + Z (GetActorForwardVector e) * 75 + 500} \<subseteq> binary32 \<longrightarrow>
       Start (HeightTrace_query e) =
         FVector (X (GetActorLocation e) + 75 * X (GetActorForwardVector e))
                 (Y (GetActorLocation e) + 75 * Y (GetActorForwardVector e))
                 (Z (GetActorLocation e) + 75 * Z (GetActorForwardVector e) + 500)
       \<and> End (HeightTrace_query e) =
         FVector (X (GetActorLocation e) + 75 * X (GetActorForwardVector e))
                 (Y (GetActorLocation e) + 75 * Y (GetActorForwardVector e))
                 (Z (GetActorLocation e) + 75 * Z (GetActorForwardVector e)))"
proof -
  obtain bHit hit where
    r: "SphereTraceSingle e (HeightTrace_query e) FHitResult_ForceInit = (bHit, hit)"
    by (cases "SphereTraceSingle e (HeightTrace_query e) FHitResult_ForceInit")
  let ?hang = "if bHit
                  \<and> - 50 \<le> fsub (FloatRounding e)
                              (Z (Location hit)) (Z (GetSocketLocation e ''HipsSocket''))
                  \<and> fsub (FloatRounding e)
                       (Z (Location hit)) (Z (GetSocketLocation e ''HipsSocket'')) \<le> 0
               then [Call_SetMovementMode MOVE_Flying, Call_StopMovementImmediately,
                     Call_PlayAnimMontage (Climb s) 1, Call_Montage_Pause]
               else []"
  let ?new = "[Call_Super_Tick DeltaTime,
               Call_SphereTraceSingle (ForwardTrace_query e),
               Call_SphereTraceSingle (HeightTrace_query e)] @ ?hang"
  have C: "Climb (call c s') = Climb s'" "Climb (ForwardTrace e s') = Climb s'" for c s'
    by (simp_all add: ForwardTrace_def call_def Let_def split: prod.splits)
  have "calls (Tick e DeltaTime s) = calls s @ ?new"
    by (simp add: Tick_def Let_def HeightTrace_cases [OF r] calls_Hang calls_call
        calls_ForwardTrace C)
  moreover have "filter is_SphereTraceSingle ?new =
          [Call_SphereTraceSingle (ForwardTrace_query e),
           Call_SphereTraceSingle (HeightTrace_query e)]"
    by simp
  ultimately have 1: "\<exists>new. calls (Tick e DeltaTime s) = calls s @ new
      \<and> filter is_SphereTraceSingle new =
          [Call_SphereTraceSingle (ForwardTrace_query e),
           Call_SphereTraceSingle (HeightTrace_query e)]"
    by blast
  have 2: "Start (ForwardTrace_query e) = GetActorLocation e"
    "End (ForwardTrace_query e) =
       FVector
         (fadd (FloatRounding e)
            (fmul (FloatRounding e) (X (GetActorForwardVector e)) 150) (X (GetActorLocation e)))
         (fadd (FloatRounding e)
            (fmul (FloatRounding e) (Y (GetActorForwardVector e)) 150) (Y (GetActorLocation e)))
         (fadd (FloatRounding e)
            (fmul (FloatRounding e) (Z (GetActorForwardVector e)) 150) (Z (GetActorLocation e)))"
    "Radius (ForwardTrace_query e) = 10"
    by (simp_all add: ForwardTrace_query_def Let_def FVector_plus_def FVector_scale_def)
  have 3: "Start (HeightTrace_query e) =
       FVector
         (fadd (FloatRounding e)
            (X (GetActorLocation e)) (fmul (FloatRounding e) (X (GetActorForwardVector e)) 75))
         (fadd (FloatRounding e)
            (Y (GetActorLocation e)) (fmul (FloatRounding e) (Y (GetActorForwardVector e)) 75))
         (fadd (FloatRounding e)
            (fadd (FloatRounding e)
               (Z (GetActorLocation e)) (fmul (FloatRounding e) (Z (GetActorForwardVector e)) 75))
            500)"
    by (simp add: HeightTrace_query_def Let_def FVector_plus_def FVector_scale_def
        fadd_0_right)
  have 4: "End (HeightTrace_query e) =
       FVector (X (Start (HeightTrace_query e)))
               (Y (Start (HeightTrace_query e)))
               (fsub (FloatRounding e) (Z (Start (HeightTrace_query e))) 500)"
    by (simp add: HeightTrace_query_def Let_def FVector_plus_def FVector_minus_def
        FVector_scale_def fsub_0_right)
  have 5: "Radius (HeightTrace_query e) = 10"
    by (simp add: HeightTrace_query_def Let_def)
  have 6: "({X (GetActorForwardVector e) * 150, Y (GetActorForwardVector e) * 150,
             Z (GetActorForwardVector e) * 150,
             X (GetActorForwardVector e) * 150 + X (GetActorLocation e),
             Y (GetActorForwardVector e) * 150 + Y (GetActorLocation e),
             Z (GetActorForwardVector e) * 150 + Z (GetActorLocation e)} \<subseteq> binary32 \<longrightarrow>
           End (ForwardTrace_query e) =
             FVector (X (GetActorLocation e) + 150 * X (GetActorForwardVector e))
                     (Y (GetActorLocation e) + 150 * Y (GetActorForwardVector e))
                     (Z (GetActorLocation e) + 150 * Z (GetActorForwardVector e)))"
  proof
    assume "{X (GetActorForwardVector e) * 150, Y (GetActorForwardVector e) * 150,
         Z (GetActorForwardVector e) * 150,
         X (GetActorForwardVector e) * 150 + X (GetActorLocation e),
         Y (GetActorForwardVector e) * 150 + Y (GetActorLocation e),
         Z (GetActorForwardVector e) * 150 + Z (GetActorLocation e)} \<subseteq> binary32"
    then show "End (ForwardTrace_query e) =
         FVector (X (GetActorLocation e) + 150 * X (GetActorForwardVector e))
                 (Y (GetActorLocation e) + 150 * Y (GetActorForwardVector e))
                 (Z (GetActorLocation e) + 150 * Z (GetActorForwardVector e))"
      by (simp add: 2 fadd_def fmul_def round_with_binary32 add.commute mult.commute)
  qed
  have 7: "({X (GetActorForwardVector e) * 75, Y (GetActorForwardVector e) * 75,
             Z (GetActorForwardVector e) * 75,
             X (GetActorLocation e) + X (GetActorForwardVector e) * 75,
             Y (GetActorLocation e) + Y (GetActorForwardVector e) * 75,
             Z (GetActorLocation e) + Z (GetActorForwardVector e) * 75,
             Z (GetActorLocation e) + Z (GetActorForwardVector e) * 75 + 500} \<subseteq> binary32 \<longrightarrow>
           Start (HeightTrace_query e) =
             FVector (X (GetActorLocation e) + 75 * X (GetActorForwardVector e))
                     (Y (GetActorLocation e) + 75 * Y (GetActorForwardVector e))
                     (Z (GetActorLocation e) + 75 * Z (GetActorForwardVector e) + 500)
           \<and> End (HeightTrace_query e) =
             FVector (X (GetActorLocation e) + 75 * X (GetActorForwardVector e))
                     (Y (GetActorLocation e) + 75 * Y (GetActorForwardVector e))
                     (Z (GetActorLocation e) + 75 * Z (GetActorForwardVector e)))"
  proof
    assume a: "{X (GetActorForwardVector e) * 75, Y (GetActorForwardVector e) * 75,
         Z (GetActorForwardVector e) * 75,
         X (GetActorLocation e) + X (GetActorForwardVector e) * 75,
         Y (GetActorLocation e) + Y (GetActorForwardVector e) * 75,
         Z (GetActorLocation e) + Z (GetActorForwardVector e) * 75,
         Z (GetActorLocation e) + Z (GetActorForwardVector e) * 75 + 500} \<subseteq> binary32"
    then have s: "Start (HeightTrace_query e) =
         FVector (X (GetActorLocation e) + 75 * X (GetActorForwardVector e))
                 (Y (GetActorLocation e) + 75 * Y (GetActorForwardVector e))
                 (Z (GetActorLocation e) + 75 * Z (GetActorForwardVector e) + 500)"
      by (simp add: 3 fadd_def fmul_def round_with_binary32 mult.commute)
    from a have "End (HeightTrace_query e) =
         FVector (X (GetActorLocation e) + 75 * X (GetActorForwardVector e))
                 (Y (GetActorLocation e) + 75 * Y (GetActorForwardVector e))
                 (Z (GetActorLocation e) + 75 * Z (GetActorForwardVector e))"
      by (simp add: 4 s fsub_def round_with_binary32 mult.commute)
    with s show "Start (HeightTrace_query e) =
         FVector (X (GetActorLocation e) + 75 * X (GetActorForwardVector e))
                 (Y (GetActorLocation e) + 75 * Y (GetActorForwardVector e))
                 (Z (GetActorLocation e) + 75 * Z (GetActorForwardVector e) + 500)
       \<and> End (HeightTrace_query e) =
         FVector (X (GetActorLocation e) + 75 * X (GetActorForwardVector e))
                 (Y (GetActorLocation e) + 75 * Y (GetActorForwardVector e))
                 (Z (GetActorLocation e) + 75 * Z (GetActorForwardVector e))"
      by simp
  qed
  from 1 2 3 4 5 6 7 show ?thesis by (intro conjI)
qed

theorem Tick_casts_two_traces_witness:
  "filter is_SphereTraceSingle (calls (Tick example_miss (1 / 64) example_base)) =
     [Call_SphereTraceSingle (ForwardTrace_query example_miss),
      Call_SphereTraceSingle (HeightTrace_query example_miss)]
   \<and> Start (ForwardTrace_query example_miss) = FVector 0 0 100
   \<and> End (ForwardTrace_query example_miss) = FVector 150 0 100
   \<and> Start (HeightTrace_query example_miss) = FVector 75 0 600
   \<and> End (HeightTrace_query example_miss) = FVector 75 0 100"
proof -
  have c: "calls example_base = []"
    by (simp add: example_base_def)
  have l: "GetActorLocation example_miss = FVector 0 0 100"
    "GetActorForwardVector example_miss = FVector 1 0 0"
    by (simp_all add: example_miss_def)
  have m: "(0::real) \<in> binary32" "(75::real) \<in> binary32" "(100::real) \<in> binary32"
    "(150::real) \<in> binary32" "(600::real) \<in> binary32"
    using binary32_of_int [of 0] binary32_of_int [of 75] binary32_of_int [of 100]
      binary32_of_int [of 150] binary32_of_int [of 600]
    by simp_all
  from Tick_casts_two_traces [of example_miss "1 / 64" example_base] c l m
  show ?thesis by (auto simp add: example_arith)
qed

section \<open>The mode switch\<close>

text \<open>
  Claim C3, as the specification states it: the trace results drive a two-state switch between
  the grounded/locomotion state (\<open>m_isClimbing\<close> false) and the climbing state
  (\<open>m_isClimbing\<close> true), and from every reachable state each of the two states is reachable
  again through some sequence of trace results. The code has no way back: the state reached
  by constructing the character and ticking one frame with a ledge in the band is climbing,
  and no sequence of frames leads from it to a state that is not climbing.
\<close>

theorem climbing_is_left_counterexample:
  "m_isClimbing (Tick (example_hit 80) (1 / 64) (AParkourGameCharacter example_base))
   \<and> \<not> (\<exists>frames. \<not> m_isClimbing
           (Ticks frames (Tick (example_hit 80) (1 / 64) (AParkourGameCharacter example_base))))"
proof -
  let ?e = "example_hit 80"
  let ?s = "AParkourGameCharacter example_base"
  have 1: "m_isClimbing (Tick ?e (1 / 64) ?s)"
    by (rule example_hit_80_climbs)
  then have "m_isClimbing (Ticks frames (Tick ?e (1 / 64) ?s))" for frames
    by (rule Ticks_keep_climbing)
  with 1 show ?thesis by blast
qed

text \<open>
  Claim C3, amended. The trace results drive a one-way switch from the locomotion state to the
  climbing state. After a tick the character is climbing exactly when it was climbing before
  or the downward trace of that frame hit and the float difference that the code tests,
  \<^verbatim>\<open>hit.Location.Z - GetSocketLocation( "HipsSocket" ).Z\<close>, was inside the band from -50 to 0.
  Hence from every state the climbing state is reachable by some sequence of frames; from a
  state that is not climbing the locomotion state is reachable (it persists over frames without
  a ledge in the band); and from a climbing state every sequence of frames ends in a climbing
  state.
\<close>

theorem mode_switch_one_way:
  assumes "SphereTraceSingle e (HeightTrace_query e) FHitResult_ForceInit = (bHit, hit)"
  shows "m_isClimbing (Tick e DeltaTime s) =
           (m_isClimbing s \<or>
            (bHit
             \<and> - 50 \<le> fsub (FloatRounding e)
                         (Z (Location hit)) (Z (GetSocketLocation e ''HipsSocket''))
             \<and> fsub (FloatRounding e)
                  (Z (Location hit)) (Z (GetSocketLocation e ''HipsSocket'')) \<le> 0))
         \<and> (\<exists>frames. m_isClimbing (Ticks frames s))
         \<and> (\<not> m_isClimbing s \<longrightarrow> (\<exists>frames. frames \<noteq> [] \<and> \<not> m_isClimbing (Ticks frames s)))
         \<and> (m_isClimbing s \<longrightarrow> (\<forall>frames. m_isClimbing (Ticks frames s)))"
proof -
  have step: "m_isClimbing (Tick e' dt s') =
           (m_isClimbing s' \<or>
            (b
             \<and> - 50 \<le> fsub (FloatRounding e')
                         (Z (Location h)) (Z (GetSocketLocation e' ''HipsSocket''))
             \<and> fsub (FloatRounding e')
                  (Z (Location h)) (Z (GetSocketLocation e' ''HipsSocket'')) \<le> 0))"
    if "SphereTraceSingle e' (HeightTrace_query e') FHitResult_ForceInit = (b, h)"
    for e' dt s' b h
    by (auto simp add: Tick_def Let_def HeightTrace_cases [OF that] m_isClimbing_Hang
        m_isClimbing_call m_isClimbing_ForwardTrace)
  have 1: "m_isClimbing (Tick e DeltaTime s) =
           (m_isClimbing s \<or>
            (bHit
             \<and> - 50 \<le> fsub (FloatRounding e)
                         (Z (Location hit)) (Z (GetSocketLocation e ''HipsSocket''))
             \<and> fsub (FloatRounding e)
                  (Z (Location hit)) (Z (GetSocketLocation e ''HipsSocket'')) \<le> 0))"
    by (rule step [OF assms])
  have "m_isClimbing (Tick (example_hit 80) 0 s)"
    by (rule example_hit_80_climbs)
  then have "m_isClimbing (Ticks [(example_hit 80, 0)] s)" by simp
  then have 2: "\<exists>frames. m_isClimbing (Ticks frames s)" ..
  have 3: "\<exists>frames. frames \<noteq> [] \<and> \<not> m_isClimbing (Ticks frames s)" if "\<not> m_isClimbing s"
  proof -
    have "\<not> m_isClimbing (Tick example_miss 0 s)"
      using that by (simp add: step [OF example_trace(1)])
    then have "[(example_miss, 0)] \<noteq> [] \<and> \<not> m_isClimbing (Ticks [(example_miss, 0)] s)"
      by simp
    then show ?thesis ..
  qed
  have 4: "\<forall>frames. m_isClimbing (Ticks frames s)" if "m_isClimbing s"
    using that by (simp add: Ticks_keep_climbing)
  from 1 2 3 4 show ?thesis by blast
qed

theorem mode_switch_one_way_witness:
  "m_isClimbing (AParkourGameCharacter example_base) = False
   \<and> m_isClimbing (Tick (example_hit 120) (1 / 64) (AParkourGameCharacter example_base)) = False
   \<and> m_isClimbing (Tick (example_hit 80) (1 / 64) (AParkourGameCharacter example_base)) = True
   \<and> (\<exists>frames. frames \<noteq> [] \<and> \<not> m_isClimbing (Ticks frames (AParkourGameCharacter example_base)))
   \<and> m_isClimbing example_base = True
   \<and> (\<forall>frames. m_isClimbing (Ticks frames example_base))
   \<and> (- 30 - 1 / 2 ^ 19) - Z (GetSocketLocation example_boundary ''HipsSocket'') < (- 50 :: real)
   \<and> m_isClimbing (Tick example_boundary (1 / 64) (AParkourGameCharacter example_base)) = True"
proof -
  let ?s = "AParkourGameCharacter example_base"
  note n = example_constructed
  have 5: "(- 30 - 1 / 2 ^ 19) - Z (GetSocketLocation example_boundary ''HipsSocket'')
             < (- 50 :: real)"
    by (simp add: example_boundary_def example_miss_def)
  have 6: "m_isClimbing (Tick example_boundary (1 / 64) ?s) = True"
    using mode_switch_one_way [OF example_boundary_trace, of "1 / 64" ?s, THEN conjunct1]
    unfolding example_boundary_difference by simp
  have y: "m_isClimbing example_base = True"
    by (simp add: example_base_def)
  have 1: "m_isClimbing (Tick (example_hit 120) (1 / 64) ?s) = False"
    using mode_switch_one_way [OF example_trace(2) [of 120], of "1 / 64" ?s] n
    by (simp add: example_hips example_arith)
  have 2: "m_isClimbing (Tick (example_hit 80) (1 / 64) ?s) = True"
    using mode_switch_one_way [OF example_trace(2) [of 80], of "1 / 64" ?s] n
    by (simp add: example_hips example_arith)
  have 3: "\<exists>frames. frames \<noteq> [] \<and> \<not> m_isClimbing (Ticks frames ?s)"
    using mode_switch_one_way [OF example_trace(2) [of 80], of "1 / 64" ?s] n by simp
  have 4: "\<forall>frames. m_isClimbing (Ticks frames example_base)"
    using mode_switch_one_way [OF example_trace(2) [of 80], of "1 / 64" example_base] y by simp
  from n 1 2 3 4 5 6 y show ?thesis by simp
qed

section \<open>Sprinting\<close>

text \<open>
  Claim C5. Sprinting is a toggle between two speed constants. The action \<^verbatim>\<open>Sprint\<close> is
  bound to \<^verbatim>\<open>StartSprint\<close> when pressed and to \<^verbatim>\<open>StopSprint\<close> when released, and these are
  its only bindings. \<^verbatim>\<open>StartSprint\<close> sets the movement component's \<open>MaxWalkSpeed\<close> to 1000,
  \<^verbatim>\<open>StopSprint\<close> sets it to 600, and neither changes anything else: putting the old speed back
  gives the state before the call.
\<close>

theorem Sprint_toggles_MaxWalkSpeed:
  "MaxWalkSpeed (CharacterMovement (StartSprint s)) = 1000
   \<and> MaxWalkSpeed (CharacterMovement (StopSprint s)) = 600
   \<and> (StartSprint s)\<lparr>CharacterMovement := (CharacterMovement (StartSprint s))
         \<lparr>MaxWalkSpeed := MaxWalkSpeed (CharacterMovement s)\<rparr>\<rparr> = s
   \<and> (StopSprint s)\<lparr>CharacterMovement := (CharacterMovement (StopSprint s))
         \<lparr>MaxWalkSpeed := MaxWalkSpeed (CharacterMovement s)\<rparr>\<rparr> = s
   \<and> StopSprint (StartSprint s) = StopSprint s
   \<and> StartSprint (StopSprint s) = StartSprint s
   \<and> (\<exists>bs. SetupPlayerInputComponent (Some b) = Inr (b @ bs)
        \<and> filter (\<lambda>x. case x of BindAction n ev h \<Rightarrow> n = ''Sprint'' | _ \<Rightarrow> False) bs =
            [BindAction ''Sprint'' IE_Pressed H_StartSprint,
             BindAction ''Sprint'' IE_Released H_StopSprint])"
proof -
  have 1: "MaxWalkSpeed (CharacterMovement (StartSprint s)) = 1000"
    "MaxWalkSpeed (CharacterMovement (StopSprint s)) = 600"
    by (simp_all add: StartSprint_def StopSprint_def)
  have 2: "(StartSprint s)\<lparr>CharacterMovement := (CharacterMovement (StartSprint s))
         \<lparr>MaxWalkSpeed := MaxWalkSpeed (CharacterMovement s)\<rparr>\<rparr> = s"
    "(StopSprint s)\<lparr>CharacterMovement := (CharacterMovement (StopSprint s))
         \<lparr>MaxWalkSpeed := MaxWalkSpeed (CharacterMovement s)\<rparr>\<rparr> = s"
    by (simp_all add: StartSprint_def StopSprint_def)
  have 3: "StopSprint (StartSprint s) = StopSprint s"
    "StartSprint (StopSprint s) = StartSprint s"
    by (simp_all add: StartSprint_def StopSprint_def)
  have 4: "\<exists>bs. SetupPlayerInputComponent (Some b) = Inr (b @ bs)
        \<and> filter (\<lambda>x. case x of BindAction n ev h \<Rightarrow> n = ''Sprint'' | _ \<Rightarrow> False) bs =
            [BindAction ''Sprint'' IE_Pressed H_StartSprint,
             BindAction ''Sprint'' IE_Released H_StopSprint]"
    by (simp add: SetupPlayerInputComponent_def)
  from 1 2 3 4 show ?thesis by (intro conjI)
qed

theorem Sprint_toggles_MaxWalkSpeed_witness:
  "MaxWalkSpeed (CharacterMovement example_base) = 600
   \<and> MaxWalkSpeed (CharacterMovement (StartSprint example_base)) = 1000
   \<and> MaxWalkSpeed (CharacterMovement (StopSprint (StartSprint example_base))) = 600
   \<and> SetupPlayerInputComponent (Some []) \<noteq> Inl CheckFailed"
proof -
  have b: "MaxWalkSpeed (CharacterMovement example_base) = 600"
    by (simp add: example_base_def)
  from Sprint_toggles_MaxWalkSpeed [of example_base "[]"] have
    1: "MaxWalkSpeed (CharacterMovement (StartSprint example_base)) = 1000" and
    2: "MaxWalkSpeed (CharacterMovement (StopSprint example_base)) = 600" and
    3: "StopSprint (StartSprint example_base) = StopSprint example_base" and
    4: "\<exists>bs. SetupPlayerInputComponent (Some []) = Inr ([] @ bs)"
    by blast+
  from b 1 2 3 4 show ?thesis by auto
qed

section \<open>Movement input\<close>

text \<open>
  Claim C6. Movement is relative to the controller's yaw only. For every call of
  \<^verbatim>\<open>MoveForward\<close> with a controller and a non-zero axis value, the code adds one movement
  input: its direction is the unit X axis of the rotation with pitch 0, roll 0 and the yaw of
  the control rotation, and its scale is the axis value. \<^verbatim>\<open>MoveRight\<close> does the same with the
  unit Y axis when in addition \<open>m_isClimbing\<close> is false. Without a controller, or with the
  value zero, neither function adds a movement input or changes anything.
\<close>

theorem Move_input_follows_controller_yaw:
  "(Controller e = Some c \<longrightarrow> Value \<noteq> 0 \<longrightarrow>
      MoveForward e Value s =
        s\<lparr>calls := calls s @
          [Call_AddMovementInput
             (GetUnitAxis e (FRotationMatrix (FRotator 0 (Yaw (GetControlRotation c)) 0)) EAxis_X)
             Value]\<rparr>)
   \<and> (Controller e = Some c \<longrightarrow> Value \<noteq> 0 \<longrightarrow> \<not> m_isClimbing s \<longrightarrow>
      MoveRight e Value s =
        s\<lparr>calls := calls s @
          [Call_AddMovementInput
             (GetUnitAxis e (FRotationMatrix (FRotator 0 (Yaw (GetControlRotation c)) 0)) EAxis_Y)
             Value]\<rparr>)
   \<and> (Controller e = None \<or> Value = 0 \<longrightarrow>
      MoveForward e Value s = s \<and> MoveRight e Value s = s)"
  by (auto simp add: MoveForward_def MoveRight_def Let_def call_def split: option.splits)

theorem Move_input_follows_controller_yaw_witness:
  "MoveForward example_miss 1 (AParkourGameCharacter example_base) =
     (AParkourGameCharacter example_base)
       \<lparr>calls := calls (AParkourGameCharacter example_base) @
          [Call_AddMovementInput (FVector 1 0 0) 1]\<rparr>
   \<and> MoveRight example_miss (- 1 / 2) (AParkourGameCharacter example_base) =
     (AParkourGameCharacter example_base)
       \<lparr>calls := calls (AParkourGameCharacter example_base) @
          [Call_AddMovementInput (FVector 0 1 0) (- 1 / 2)]\<rparr>
   \<and> MoveForward example_no_controller 1 example_base = example_base
   \<and> MoveRight example_no_controller 1 example_base = example_base
   \<and> MoveForward example_miss 0 example_base = example_base
   \<and> MoveRight example_miss 0 example_base = example_base"
proof -
  let ?s = "AParkourGameCharacter example_base"
  let ?c = "\<lparr>GetControlRotation = FRotator 30 0 10\<rparr>"
  have c: "Controller example_miss = Some ?c"
    by (simp add: example_miss_def)
  have u: "GetUnitAxis example_miss = example_GetUnitAxis"
    by (simp add: example_miss_def)
  have n: "\<not> m_isClimbing ?s"
    by (simp add: AParkourGameCharacter_def example_base_def call_def Let_def)
  have k: "Controller example_no_controller = None"
    by (simp add: example_no_controller_def)
  have 1: "MoveForward example_miss 1 ?s =
     ?s\<lparr>calls := calls ?s @ [Call_AddMovementInput (FVector 1 0 0) 1]\<rparr>"
    using Move_input_follows_controller_yaw [of example_miss ?c 1 ?s] c u by simp
  have 2: "MoveRight example_miss (- 1 / 2) ?s =
     ?s\<lparr>calls := calls ?s @ [Call_AddMovementInput (FVector 0 1 0) (- 1 / 2)]\<rparr>"
    using Move_input_follows_controller_yaw [of example_miss ?c "- 1 / 2" ?s] c u n by simp
  have 3: "MoveForward example_no_controller 1 example_base = example_base
     \<and> MoveRight example_no_controller 1 example_base = example_base"
    using Move_input_follows_controller_yaw [of example_no_controller ?c 1 example_base] k
    by simp
  have 4: "MoveForward example_miss 0 example_base = example_base
     \<and> MoveRight example_miss 0 example_base = example_base"
    using Move_input_follows_controller_yaw [of example_miss ?c 0 example_base] by simp
  from 1 2 3 4 show ?thesis by simp
qed

text \<open>
  Claim C8. While the character is climbing (\<open>m_isClimbing\<close> true), \<^verbatim>\<open>MoveRight\<close> is ignored:
  for every axis value it adds no movement input and changes nothing. \<^verbatim>\<open>MoveForward\<close> does not
  test the climbing flag: with a controller and a non-zero value it adds its movement input
  while climbing as well.
\<close>

theorem MoveRight_gated_MoveForward_not:
  "(m_isClimbing s \<longrightarrow> MoveRight e Value s = s)
   \<and> (m_isClimbing s \<longrightarrow> Controller e = Some c \<longrightarrow> Value \<noteq> 0 \<longrightarrow>
        calls (MoveForward e Value s) = calls s @
          [Call_AddMovementInput
             (GetUnitAxis e (FRotationMatrix (FRotator 0 (Yaw (GetControlRotation c)) 0)) EAxis_X)
             Value]
        \<and> MoveForward e Value s \<noteq> s)"
  by (auto simp add: MoveForward_def MoveRight_def Let_def call_def split: option.splits
      dest: arg_cong [where f = calls])

theorem MoveRight_gated_MoveForward_not_witness:
  "m_isClimbing example_base
   \<and> MoveRight example_miss 1 example_base = example_base
   \<and> calls (MoveForward example_miss 1 example_base) =
       [Call_AddMovementInput (FVector 1 0 0) 1]
   \<and> MoveForward example_miss 1 example_base \<noteq> example_base"
proof -
  let ?c = "\<lparr>GetControlRotation = FRotator 30 0 10\<rparr>"
  have c: "Controller example_miss = Some ?c"
    by (simp add: example_miss_def)
  have u: "GetUnitAxis example_miss = example_GetUnitAxis"
    by (simp add: example_miss_def)
  have y: "m_isClimbing example_base" and l: "calls example_base = []"
    by (simp_all add: example_base_def)
  from MoveRight_gated_MoveForward_not [of example_base example_miss 1 ?c] c u y l
  show ?thesis by simp
qed

section \<open>The wall fields\<close>



section \<open>The climbing flag\<close>

lemma HeightTrace_flag:
  "m_isClimbing (HeightTrace e s) = m_isClimbing s \<or> (\<exists>s0. HeightTrace e s = Hang s0)"
proof -
  obtain bHit hit where
    r: "SphereTraceSingle e (HeightTrace_query e) FHitResult_ForceInit = (bHit, hit)"
    by (cases "SphereTraceSingle e (HeightTrace_query e) FHitResult_ForceInit")
  show ?thesis
  proof (cases "bHit
         \<and> - 50 \<le> fsub (FloatRounding e)
                     (Z (Location hit)) (Z (GetSocketLocation e ''HipsSocket''))
         \<and> fsub (FloatRounding e)
              (Z (Location hit)) (Z (GetSocketLocation e ''HipsSocket'')) \<le> 0")
    case True
    then have "HeightTrace e s =
        Hang (call Call_StopMovementImmediately
               (call (Call_SetMovementMode MOVE_Flying)
                 (call (Call_SphereTraceSingle (HeightTrace_query e)) s)))"
      by (simp add: HeightTrace_cases [OF r])
    then show ?thesis by blast
  next
    case False
    then have "HeightTrace e s = call (Call_SphereTraceSingle (HeightTrace_query e)) s"
      by (auto simp add: HeightTrace_cases [OF r])
    then show ?thesis by (simp add: m_isClimbing_call)
  qed
qed

lemma m_isClimbing_MoveForward: "m_isClimbing (MoveForward e v s) = m_isClimbing s"
  by (simp add: MoveForward_def Let_def m_isClimbing_call split: option.splits)

lemma m_isClimbing_MoveRight: "m_isClimbing (MoveRight e v s) = m_isClimbing s"
  by (simp add: MoveRight_def Let_def m_isClimbing_call split: option.splits)

lemma Tick_flag:
  "m_isClimbing (Tick e dt s) = m_isClimbing s \<or> (\<exists>s0. Tick e dt s = Hang s0)"
proof -
  let ?s2 = "ForwardTrace e (call (Call_Super_Tick dt) s)"
  have "Tick e dt s = HeightTrace e ?s2"
    by (simp add: Tick_def Let_def)
  moreover have "m_isClimbing ?s2 = m_isClimbing s"
    by (simp add: m_isClimbing_ForwardTrace m_isClimbing_call)
  ultimately show ?thesis
    using HeightTrace_flag [of e ?s2] by simp
qed

lemma exec_flag:
  assumes "exec e op s = Inr s'"
  shows "m_isClimbing s' = m_isClimbing s \<or> (\<exists>s0. s' = Hang s0)"
proof (cases op)
  case (Op_SetupPlayerInputComponent pic)
  with assms show ?thesis by (simp split: sum.splits)
next
  case (Op_Tick dt)
  with assms Tick_flag [of e dt s] show ?thesis by auto
next
  case Op_Hang
  with assms show ?thesis by auto
next
  case Op_ForwardTrace
  with assms show ?thesis by (auto simp: m_isClimbing_ForwardTrace)
next
  case Op_HeightTrace
  with assms HeightTrace_flag [of e s] show ?thesis by auto
next
  case Op_OnResetVR
  with assms show ?thesis by (auto simp: OnResetVR_def m_isClimbing_call)
next
  case (Op_TouchStarted i l)
  with assms show ?thesis by (auto simp: TouchStarted_def m_isClimbing_call)
next
  case (Op_TouchStopped i l)
  with assms show ?thesis by (auto simp: TouchStopped_def m_isClimbing_call)
next
  case (Op_TurnAtRate r)
  with assms show ?thesis by (auto simp: TurnAtRate_def m_isClimbing_call)
next
  case (Op_LookUpAtRate r)
  with assms show ?thesis by (auto simp: LookUpAtRate_def m_isClimbing_call)
next
  case (Op_MoveForward v)
  with assms show ?thesis by (auto simp: m_isClimbing_MoveForward)
next
  case (Op_MoveRight v)
  with assms show ?thesis by (auto simp: m_isClimbing_MoveRight)
next
  case Op_StartSprint
  with assms show ?thesis by (auto simp: StartSprint_def)
next
  case Op_StopSprint
  with assms show ?thesis by (auto simp: StopSprint_def)
qed

lemma exec_keeps_climbing:
  "exec e op s = Inr s' \<Longrightarrow> m_isClimbing s \<Longrightarrow> m_isClimbing s'"
  using exec_flag [of e op s s'] by (auto simp: m_isClimbing_Hang)

lemma run_keeps_climbing:
  "run steps s = Inr s' \<Longrightarrow> m_isClimbing s \<Longrightarrow> m_isClimbing s'"
proof (induction steps arbitrary: s)
  case Nil
  then show ?case by simp
next
  case (Cons st steps)
  obtain e op where st: "st = (e, op)" by (cases st)
  from Cons.prems(1) obtain s1 where
    1: "exec e op s = Inr s1" and 2: "run steps s1 = Inr s'"
    by (auto simp: st split: sum.splits)
  from 1 Cons.prems(2) have "m_isClimbing s1" by (rule exec_keeps_climbing)
  with 2 show ?case by (rule Cons.IH)
qed

lemma exec_total:
  "op \<noteq> Op_SetupPlayerInputComponent None \<Longrightarrow> \<exists>s'. exec e op s = Inr s'"
  by (cases op) (auto simp: SetupPlayerInputComponent_def split: option.splits)

lemma run_total:
  "\<forall>st \<in> set steps. snd st \<noteq> Op_SetupPlayerInputComponent None
     \<Longrightarrow> \<exists>s'. run steps s = Inr s'"
proof (induction steps arbitrary: s)
  case Nil
  then show ?case by simp
next
  case (Cons st steps)
  obtain e op where st: "st = (e, op)" by (cases st)
  from Cons.prems have "op \<noteq> Op_SetupPlayerInputComponent None" by (simp add: st)
  then obtain s1 where 1: "exec e op s = Inr s1" using exec_total by blast
  from Cons.prems have "\<forall>st \<in> set steps. snd st \<noteq> Op_SetupPlayerInputComponent None"
    by simp
  then obtain s' where "run steps s1 = Inr s'" using Cons.IH by blast
  with 1 show ?case by (simp add: st)
qed

text \<open>
  Claim C9. The climbing flag is absorbing. \<open>m_isClimbing\<close> is false after construction;
  \<^verbatim>\<open>Hang\<close> sets it to true; whenever a member function changes the flag, the state it returns
  is the result of \<^verbatim>\<open>Hang\<close> (so the flag is written by \<^verbatim>\<open>Hang\<close> only, directly or through
  \<^verbatim>\<open>HeightTrace\<close> and \<^verbatim>\<open>Tick\<close>); no member function resets it; hence after every sequence of
  member-function calls that starts in a climbing state the flag is still true. Such a
  sequence stops early only at a \<^verbatim>\<open>SetupPlayerInputComponent\<close> with a null component.
\<close>

theorem m_isClimbing_absorbing:
  "m_isClimbing (AParkourGameCharacter base) = False
   \<and> m_isClimbing (Hang s) = True
   \<and> (exec e op s = Inr s' \<longrightarrow> m_isClimbing s' \<noteq> m_isClimbing s \<longrightarrow>
        m_isClimbing s' \<and> (\<exists>s0. s' = Hang s0))
   \<and> (exec e op s = Inr s' \<longrightarrow> m_isClimbing s \<longrightarrow> m_isClimbing s')
   \<and> (run steps s = Inr s'' \<longrightarrow> m_isClimbing s \<longrightarrow> m_isClimbing s'')
   \<and> ((\<forall>st \<in> set steps. snd st \<noteq> Op_SetupPlayerInputComponent None) \<longrightarrow>
        (\<exists>s1. run steps s = Inr s1))"
proof -
  have 1: "m_isClimbing (AParkourGameCharacter base) = False"
    by (simp add: AParkourGameCharacter_def Let_def call_def)
  have 2: "m_isClimbing (Hang s) = True"
    by (rule m_isClimbing_Hang)
  have 3: "m_isClimbing s' \<and> (\<exists>s0. s' = Hang s0)"
    if "exec e op s = Inr s'" "m_isClimbing s' \<noteq> m_isClimbing s"
    using exec_flag [OF that(1)] that(2) by (auto simp: m_isClimbing_Hang)
  have 4: "m_isClimbing s'" if "exec e op s = Inr s'" "m_isClimbing s"
    using that by (rule exec_keeps_climbing)
  have 5: "m_isClimbing s''" if "run steps s = Inr s''" "m_isClimbing s"
    using that by (rule run_keeps_climbing)
  have 6: "\<exists>s1. run steps s = Inr s1"
    if "\<forall>st \<in> set steps. snd st \<noteq> Op_SetupPlayerInputComponent None"
    using that by (rule run_total)
  from 1 2 3 4 5 6 show ?thesis by blast
qed

theorem m_isClimbing_absorbing_witness:
  "m_isClimbing (AParkourGameCharacter example_base) = False
   \<and> exec (example_hit 80) (Op_Tick (1 / 64)) (AParkourGameCharacter example_base)
       = Inr (Tick (example_hit 80) (1 / 64) (AParkourGameCharacter example_base))
   \<and> m_isClimbing (Tick (example_hit 80) (1 / 64) (AParkourGameCharacter example_base))
   \<and> (\<exists>s0. Tick (example_hit 80) (1 / 64) (AParkourGameCharacter example_base) = Hang s0)
   \<and> (case run example_steps
             (Tick (example_hit 80) (1 / 64) (AParkourGameCharacter example_base)) of
         Inl err \<Rightarrow> False
       | Inr s \<Rightarrow> m_isClimbing s)"
proof -
  let ?s = "AParkourGameCharacter example_base"
  let ?t = "Tick (example_hit 80) (1 / 64) ?s"
  note n = example_constructed
  have x: "exec (example_hit 80) (Op_Tick (1 / 64)) ?s = Inr ?t"
    by simp
  have y: "m_isClimbing ?t"
    by (rule example_hit_80_climbs)
  have h: "\<exists>s0. ?t = Hang s0"
    using m_isClimbing_absorbing [of example_base ?s "example_hit 80" "Op_Tick (1 / 64)" ?t
        "[]" ?t] x y n by simp
  have ok: "\<forall>st \<in> set example_steps. snd st \<noteq> Op_SetupPlayerInputComponent None"
    by (simp add: example_steps_def)
  from m_isClimbing_absorbing [of example_base ?t "example_miss" Op_Hang ?t example_steps] ok
  obtain s1 where r: "run example_steps ?t = Inr s1" by blast
  from m_isClimbing_absorbing [of example_base ?t "example_miss" Op_Hang ?t example_steps s1]
    r y
  have "m_isClimbing s1" by blast
  with r have 5: "case run example_steps ?t of Inl err \<Rightarrow> False | Inr s \<Rightarrow> m_isClimbing s"
    by simp
  from n x y h 5 show ?thesis by (intro conjI)
qed

end
